theory Spec2Isabelle
  imports Main
begin

section \<open>The capture session coordinator of splutter\<close>

text \<open>
  The development embeds \<^verbatim>\<open>src/src/splutter.ts\<close>, the class \<^verbatim>\<open>Splutter\<close>. The class owns five
  collaborators (Device, Audio, BufferManager, Encoder, Uploader) and reports to a context.
  Every method is a state transformer on a record of the collaborators' states; every
  command the coordinator sends to a collaborator or to the context is also appended to a
  chronological list of calls, so that "which calls were issued, and in which order" is a
  property of the state. Pure queries (\<^verbatim>\<open>hasError\<close>, \<^verbatim>\<open>bufferExists\<close>, \<^verbatim>\<open>sampleRate\<close>,
  \<^verbatim>\<open>processorBufferSize\<close>, \<^verbatim>\<open>recordingChannelCount\<close>) are not listed.

  A JavaScript \<^verbatim>\<open>number\<close> that counts or names channels is an \<^typ>\<open>int\<close>; fractional
  values and NaN are outside the model. The two \<^verbatim>\<open>await\<close>s of \<^verbatim>\<open>startCapture\<close> are
  modelled as one uninterrupted run: what the host answers is an argument of the call.
\<close>

subsection \<open>Values that cross the boundary\<close>

text \<open>
  Modelled from the spec: the enumeration \<^verbatim>\<open>DeviceError\<close> is declared in \<^verbatim>\<open>./device\<close>,
  which is not among the sources. The spec (section 3) lists no error, stopped, not granted
  and any other error with a diagnostic payload.
\<close>

datatype DeviceError = noError | stopped | notGranted | otherError string

text \<open>A thrown value, and the handle of a media stream.\<close>

datatype exn = Error string

type_synonym MediaStream = nat

text \<open>The argument of \<^verbatim>\<open>context.onWarning\<close>: a device error, a text, or a caught value.\<close>

datatype message = DeviceMessage DeviceError | Text string | Thrown exn

datatype call =
    NewDevice | NewBufferManager | NewAudio | NewUploader int | NewEncoder int
  | AudioResume | AudioStopAll | AudioHandleInputStream MediaStream
  | AudioMuteOutputForInput int int | AudioUnmuteOutputForInput int int
  | AudioRecordChannel int | AudioStopRecordChannel int
  | BufferSetBuffer int | BufferInitBuffer int | BufferStopBuffer int | BufferStopAll
  | DeviceTryReload | DeviceRequestDeviceAccess | DeviceStop
  | EncoderSetChannels int | EncoderStopEncoder
  | UploaderSetChannels int | UploaderStopUploader
  | ContextOnWarning message | ContextOnFailure exn | ContextOnDevicePermissionRemoved

subsection \<open>The collaborators' states\<close>

text \<open>
  Modelled from the spec: the classes \<^verbatim>\<open>Device\<close>, \<^verbatim>\<open>Audio\<close>, \<^verbatim>\<open>BufferManager\<close>,
  \<^verbatim>\<open>SegmentBufferGenerator\<close>, \<^verbatim>\<open>Encoder\<close> and \<^verbatim>\<open>Uploader\<close> are imported by
  \<^verbatim>\<open>splutter.ts\<close> and are not among the sources. Each record keeps what the spec says the
  collaborator owns (sections 2, 3 and 6): the device its error state and whether it was
  stopped; the audio engine whether it is active, its sample rate and buffer size, the
  channels flagged as recording and the muted routes; a segment buffer generator the
  arguments it was constructed with and whether it is running; the encoder and the
  uploader their configured channel count.

  The source wraps \<^verbatim>\<open>audio.recordChannel\<close> in a \<^verbatim>\<open>try\<close>, and the spec does not say when
  that call throws: \<open>a_refuses\<close> is the table of channels for which it does, fixed when the
  engine is constructed.
\<close>

record Device =
  hasError :: DeviceError
  d_stopped :: bool

record Audio =
  a_active :: bool
  a_sampleRate :: int
  a_processorBufferSize :: int
  a_recording :: "int set"
  a_muted :: "(int \<times> int) set"
  a_refuses :: "int \<rightharpoonup> exn"

record SegmentBufferGenerator =
  g_channel :: int
  g_sampleRate :: int
  g_bufferSize :: int
  g_running :: bool

record Encoder =
  e_sampleRate :: int
  e_channels :: "int option"

record Uploader =
  u_retry :: int
  u_channels :: "int option"

text \<open>
  The fields of the class \<^verbatim>\<open>Splutter\<close> (lines 39 to 47). Only \<^verbatim>\<open>encoder\<close> is declared
  optional. \<open>calls\<close> is the list of calls issued so far, oldest first; the context is
  represented by the calls it received.
\<close>

record Splutter =
  device :: Device
  audio :: Audio
  encoder :: "Encoder option"
  uploader :: Uploader
  bufferManager :: "int \<rightharpoonup> SegmentBufferGenerator"
  calls :: "call list"

definition issue :: "call \<Rightarrow> Splutter \<Rightarrow> Splutter" where
  "issue c s = s\<lparr>calls := calls s @ [c]\<rparr>"

subsection \<open>The collaborators' operations\<close>

text \<open>
  Modelled from the spec: the Device Gateway of section 6. \<^verbatim>\<open>tryReload\<close> changes nothing
  synchronously (its outcome "surfaces only on the next device-state check");
  \<^verbatim>\<open>requestDeviceAccess\<close> resolves to the stream the host grants, or to none;
  \<^verbatim>\<open>stop\<close> stops the gateway.
\<close>

definition device_hasError :: "Splutter \<Rightarrow> DeviceError" where
  "device_hasError s = hasError (device s)"

definition device_tryReload :: "Splutter \<Rightarrow> Splutter" where
  "device_tryReload s = issue DeviceTryReload s"

definition device_requestDeviceAccess ::
  "MediaStream option \<Rightarrow> Splutter \<Rightarrow> MediaStream option \<times> Splutter" where
  "device_requestDeviceAccess granted s =
     (granted,
      issue DeviceRequestDeviceAccess
        (case granted of
           None \<Rightarrow> s
         | Some stream \<Rightarrow> s\<lparr>device := (device s)\<lparr>d_stopped := False\<rparr>\<rparr>))"

definition device_stop :: "Splutter \<Rightarrow> Splutter" where
  "device_stop s = issue DeviceStop (s\<lparr>device := (device s)\<lparr>d_stopped := True\<rparr>\<rparr>)"

text \<open>
  Modelled from the spec: the Audio Engine of section 6. \<^verbatim>\<open>stopAll\<close> "stops all Audio
  Engine activity"; the recording flags are left as they are, as in the scenario of
  section 8 where channels still count as recording after \<^verbatim>\<open>onFailure\<close>.
  \<^verbatim>\<open>handleInputStream\<close> resolves to the channel count the host negotiates.
  \<^verbatim>\<open>recordChannel\<close> flags a channel, or throws before changing anything;
  \<^verbatim>\<open>stopRecordChannel\<close> clears the flag; \<^verbatim>\<open>recordingChannelCount\<close> counts the flags.
\<close>

definition audio_resume :: "Splutter \<Rightarrow> Splutter" where
  "audio_resume s = issue AudioResume (s\<lparr>audio := (audio s)\<lparr>a_active := True\<rparr>\<rparr>)"

definition audio_sampleRate :: "Splutter \<Rightarrow> int" where
  "audio_sampleRate s = a_sampleRate (audio s)"

definition audio_processorBufferSize :: "Splutter \<Rightarrow> int" where
  "audio_processorBufferSize s = a_processorBufferSize (audio s)"

definition audio_handleInputStream ::
  "MediaStream \<Rightarrow> int \<Rightarrow> Splutter \<Rightarrow> int \<times> Splutter" where
  "audio_handleInputStream stream negotiated s =
     (negotiated, issue (AudioHandleInputStream stream) s)"

definition audio_stopAll :: "Splutter \<Rightarrow> Splutter" where
  "audio_stopAll s = issue AudioStopAll (s\<lparr>audio := (audio s)\<lparr>a_active := False\<rparr>\<rparr>)"

definition audio_muteOutputForInput :: "int \<Rightarrow> int \<Rightarrow> Splutter \<Rightarrow> Splutter" where
  "audio_muteOutputForInput input output s =
     issue (AudioMuteOutputForInput input output)
       (s\<lparr>audio := (audio s)\<lparr>a_muted := insert (input, output) (a_muted (audio s))\<rparr>\<rparr>)"

definition audio_unmuteOutputForInput :: "int \<Rightarrow> int \<Rightarrow> Splutter \<Rightarrow> Splutter" where
  "audio_unmuteOutputForInput input output s =
     issue (AudioUnmuteOutputForInput input output)
       (s\<lparr>audio := (audio s)\<lparr>a_muted := a_muted (audio s) - {(input, output)}\<rparr>\<rparr>)"

definition audio_recordChannel :: "int \<Rightarrow> Splutter \<Rightarrow> (exn \<times> Splutter) + Splutter" where
  "audio_recordChannel input s =
     (let s1 = issue (AudioRecordChannel input) s in
      case a_refuses (audio s) input of
        Some e \<Rightarrow> Inl (e, s1)
      | None \<Rightarrow> Inr (s1\<lparr>audio := (audio s1)\<lparr>a_recording := insert input (a_recording (audio s1))\<rparr>\<rparr>))"

definition audio_stopRecordChannel :: "int \<Rightarrow> Splutter \<Rightarrow> Splutter" where
  "audio_stopRecordChannel input s =
     issue (AudioStopRecordChannel input)
       (s\<lparr>audio := (audio s)\<lparr>a_recording := a_recording (audio s) - {input}\<rparr>\<rparr>)"

definition audio_recordingChannelCount :: "Splutter \<Rightarrow> int" where
  "audio_recordingChannelCount s = int (card (a_recording (audio s)))"

text \<open>
  Modelled from the spec: the Buffer Registry of section 6. \<^verbatim>\<open>setBuffer\<close> registers a
  generator under a channel index; \<^verbatim>\<open>initBuffer\<close> starts the channel's generator and
  "may fail, e.g., if no buffer was created" for the channel; \<^verbatim>\<open>stopBuffer\<close> and
  \<^verbatim>\<open>stopAll\<close> stop generators and never remove one.
\<close>

definition bufferManager_bufferExists :: "int \<Rightarrow> Splutter \<Rightarrow> bool" where
  "bufferManager_bufferExists i s = (bufferManager s i \<noteq> None)"

definition bufferManager_setBuffer :: "SegmentBufferGenerator \<Rightarrow> int \<Rightarrow> Splutter \<Rightarrow> Splutter" where
  "bufferManager_setBuffer g i s =
     issue (BufferSetBuffer i) (s\<lparr>bufferManager := (bufferManager s)(i \<mapsto> g)\<rparr>)"

definition bufferManager_initBuffer :: "int \<Rightarrow> Splutter \<Rightarrow> (exn \<times> Splutter) + Splutter" where
  "bufferManager_initBuffer i s =
     (let s1 = issue (BufferInitBuffer i) s in
      case bufferManager s i of
        None \<Rightarrow> Inl (Error ''no buffer for channel'', s1)
      | Some g \<Rightarrow> Inr (s1\<lparr>bufferManager := (bufferManager s1)(i \<mapsto> g\<lparr>g_running := True\<rparr>)\<rparr>))"

definition bufferManager_stopBuffer :: "int \<Rightarrow> Splutter \<Rightarrow> Splutter" where
  "bufferManager_stopBuffer i s =
     issue (BufferStopBuffer i)
       (case bufferManager s i of
          None \<Rightarrow> s
        | Some g \<Rightarrow> s\<lparr>bufferManager := (bufferManager s)(i \<mapsto> g\<lparr>g_running := False\<rparr>)\<rparr>)"

definition bufferManager_stopAll :: "Splutter \<Rightarrow> Splutter" where
  "bufferManager_stopAll s =
     issue BufferStopAll
       (s\<lparr>bufferManager := (\<lambda>i. map_option (\<lambda>g. g\<lparr>g_running := False\<rparr>) (bufferManager s i))\<rparr>)"

text \<open>
  Modelled from the spec: the Encoder Handle and the Uploader Handle of section 6. The
  source reaches the encoder through optional chaining (\<^verbatim>\<open>this.encoder?.\<close>): with no
  encoder, no call is issued. Stopping changes no field of the model; a stop is visible
  as the call issued.
\<close>

definition new_Encoder :: "int \<Rightarrow> Encoder" where
  "new_Encoder rate = \<lparr>e_sampleRate = rate, e_channels = None\<rparr>"

definition encoder_setChannels :: "int \<Rightarrow> Splutter \<Rightarrow> Splutter" where
  "encoder_setChannels n s =
     (case encoder s of
        None \<Rightarrow> s
      | Some e \<Rightarrow> issue (EncoderSetChannels n) (s\<lparr>encoder := Some (e\<lparr>e_channels := Some n\<rparr>)\<rparr>))"

definition encoder_stopEncoder :: "Splutter \<Rightarrow> Splutter" where
  "encoder_stopEncoder s = (case encoder s of None \<Rightarrow> s | Some e \<Rightarrow> issue EncoderStopEncoder s)"

definition uploader_setChannels :: "int \<Rightarrow> Splutter \<Rightarrow> Splutter" where
  "uploader_setChannels n s =
     issue (UploaderSetChannels n) (s\<lparr>uploader := (uploader s)\<lparr>u_channels := Some n\<rparr>\<rparr>)"

definition uploader_stopUploader :: "Splutter \<Rightarrow> Splutter" where
  "uploader_stopUploader s = issue UploaderStopUploader s"

text \<open>The callbacks of the owning context (\<^verbatim>\<open>SplutterContextInterface\<close>, lines 11 to 25).\<close>

definition context_onWarning :: "message \<Rightarrow> Splutter \<Rightarrow> Splutter" where
  "context_onWarning m s = issue (ContextOnWarning m) s"

definition context_onFailure :: "exn \<Rightarrow> Splutter \<Rightarrow> Splutter" where
  "context_onFailure e s = issue (ContextOnFailure e) s"

definition context_onDevicePermissionRemoved :: "Splutter \<Rightarrow> Splutter" where
  "context_onDevicePermissionRemoved s = issue ContextOnDevicePermissionRemoved s"

subsection \<open>The coordinator\<close>

text \<open>
  What the collaborators take from the host when they are constructed: the device's
  error state, the audio engine's sample rate and buffer size, and the channels the engine
  refuses to record.
\<close>

record Host =
  h_deviceError :: DeviceError
  h_sampleRate :: int
  h_processorBufferSize :: int
  h_refuses :: "int \<rightharpoonup> exn"

text \<open>The constructor (lines 53 to 81): device, buffer manager, audio, uploader; no encoder.\<close>

definition new_Splutter :: "Host \<Rightarrow> Splutter" where
  "new_Splutter host =
     \<lparr>device = \<lparr>hasError = h_deviceError host, d_stopped = False\<rparr>,
      audio = \<lparr>a_active = False, a_sampleRate = h_sampleRate host,
               a_processorBufferSize = h_processorBufferSize host,
               a_recording = {}, a_muted = {}, a_refuses = h_refuses host\<rparr>,
      encoder = None,
      uploader = \<lparr>u_retry = 3000, u_channels = None\<rparr>,
      bufferManager = Map.empty,
      calls = [NewDevice, NewBufferManager, NewAudio, NewUploader 3000]\<rparr>"

text \<open>\<^verbatim>\<open>createBuffers\<close> (lines 83 to 107): the loop from \<open>i\<close>, then the two \<^verbatim>\<open>setChannels\<close>.\<close>

function createBuffers_loop :: "int \<Rightarrow> int \<Rightarrow> Splutter \<Rightarrow> Splutter" where
  "createBuffers_loop i channels s =
     (if i < channels
      then createBuffers_loop (i + 1) channels
             (if \<not> bufferManager_bufferExists i s \<and> encoder s \<noteq> None
              then bufferManager_setBuffer
                     \<lparr>g_channel = i, g_sampleRate = audio_sampleRate s,
                      g_bufferSize = audio_processorBufferSize s, g_running = False\<rparr> i s
              else s)
      else s)"
  by pat_completeness auto
termination
  by (relation "measure (\<lambda>(i, channels, s). nat (channels - i))") auto

declare createBuffers_loop.simps [simp del]

definition createBuffers :: "int \<Rightarrow> Splutter \<Rightarrow> Splutter" where
  "createBuffers channels s =
     uploader_setChannels channels (encoder_setChannels channels (createBuffers_loop 0 channels s))"

text \<open>\<^verbatim>\<open>init\<close> (lines 109 to 115).\<close>

definition init :: "Splutter \<Rightarrow> Splutter" where
  "init s =
     (let s1 = audio_resume s in
      if encoder s1 = None
      then issue (NewEncoder (audio_sampleRate s1))
             (s1\<lparr>encoder := Some (new_Encoder (audio_sampleRate s1))\<rparr>)
      else s1)"

text \<open>
  \<^verbatim>\<open>startCapture\<close> (lines 117 to 163). \<open>negotiate\<close> is the part after the \<^verbatim>\<open>switch\<close>
  (lines 142 to 162); \<open>granted\<close> and \<open>negotiated\<close> are what the two awaited calls resolve to.
\<close>

definition negotiate :: "MediaStream option \<Rightarrow> int \<Rightarrow> Splutter \<Rightarrow> int \<times> Splutter" where
  "negotiate granted negotiated s =
     (case device_requestDeviceAccess granted s of
        (None, s1) \<Rightarrow> (0, context_onWarning (Text ''No stream available'') s1)
      | (Some stream, s1) \<Rightarrow>
          (case audio_handleInputStream stream negotiated s1 of
             (channels, s2) \<Rightarrow>
               if channels = 0
               then (0, context_onWarning (Text ''No channels available'') s2)
               else (channels, createBuffers channels s2)))"

definition startCapture :: "MediaStream option \<Rightarrow> int \<Rightarrow> Splutter \<Rightarrow> int \<times> Splutter" where
  "startCapture granted negotiated s =
     (let s1 = init s in
      case device_hasError s1 of
        stopped \<Rightarrow> negotiate granted negotiated (device_tryReload s1)
      | notGranted \<Rightarrow> negotiate granted negotiated (device_tryReload s1)
      | noError \<Rightarrow> negotiate granted negotiated s1
      | otherError payload \<Rightarrow> (0, context_onWarning (DeviceMessage (device_hasError s1)) s1))"

text \<open>\<^verbatim>\<open>stopCapture\<close> (lines 165 to 172).\<close>

definition stopCapture :: "Splutter \<Rightarrow> Splutter" where
  "stopCapture s = device_stop (bufferManager_stopAll (audio_stopAll s))"

text \<open>The two routing methods (lines 174 to 182).\<close>

definition muteOutputChannelForInputChannel :: "int \<Rightarrow> int \<Rightarrow> Splutter \<Rightarrow> Splutter" where
  "muteOutputChannelForInputChannel input output s = audio_muteOutputForInput input output s"

definition unmuteOutputChannelForInputChannel :: "int \<Rightarrow> int \<Rightarrow> Splutter \<Rightarrow> Splutter" where
  "unmuteOutputChannelForInputChannel input output s = audio_unmuteOutputForInput input output s"

text \<open>\<^verbatim>\<open>stopRecordInputChannel\<close> (lines 200 to 212).\<close>

definition stopRecordInputChannel :: "int \<Rightarrow> Splutter \<Rightarrow> Splutter" where
  "stopRecordInputChannel input s =
     (let s1 = bufferManager_stopBuffer input s;
          s2 = audio_stopRecordChannel input s1
      in if audio_recordingChannelCount s2 = 0
         then uploader_stopUploader (encoder_stopEncoder s2)
         else s2)"

text \<open>
  \<^verbatim>\<open>recordInputChannel\<close> (lines 184 to 198). \<open>recordInputChannel_try\<close> is the \<^verbatim>\<open>try\<close>
  block: \<open>Inl (e, s')\<close> is the value \<open>e\<close> thrown in state \<open>s'\<close>.
\<close>

definition recordInputChannel_try :: "int \<Rightarrow> Splutter \<Rightarrow> (exn \<times> Splutter) + Splutter" where
  "recordInputChannel_try input s =
     (case bufferManager_initBuffer input s of
        Inl thrown \<Rightarrow> Inl thrown
      | Inr s1 \<Rightarrow> audio_recordChannel input s1)"

definition recordInputChannel :: "int \<Rightarrow> Splutter \<Rightarrow> Splutter" where
  "recordInputChannel input s =
     (case recordInputChannel_try input s of
        Inr s1 \<Rightarrow> s1
      | Inl (e, s1) \<Rightarrow> context_onWarning (Thrown e) (stopRecordInputChannel input s1))"

text \<open>\<^verbatim>\<open>onWarning\<close> and \<^verbatim>\<open>onFailure\<close> (lines 224 to 243).\<close>

definition onWarning :: "string \<Rightarrow> Splutter \<Rightarrow> Splutter" where
  "onWarning m s = context_onWarning (Text m) s"

definition onFailure :: "exn \<Rightarrow> Splutter \<Rightarrow> Splutter" where
  "onFailure error s =
     (let s1 = context_onFailure error s;
          s2 = audio_stopAll s1;
          s3 = bufferManager_stopAll s2
      in if audio_recordingChannelCount s3 = 0
         then uploader_stopUploader (encoder_stopEncoder s3)
         else s3)"

text \<open>The handler the constructor gives to the device (lines 58 to 63).\<close>

definition onPermissionsRemoved :: "Splutter \<Rightarrow> Splutter" where
  "onPermissionsRemoved s = context_onDevicePermissionRemoved (stopCapture s)"

subsection \<open>Histories\<close>

text \<open>
  What can happen to a coordinator after its construction: a call of a public method, the
  device invoking its permission handler, or the device changing its error state on its
  own (\<open>DeviceReports\<close>; the coordinator has no part in it). \<^verbatim>\<open>inputDeviceInformation\<close>
  only reads and is left out. \<open>run\<close> applies a history, oldest event first.
\<close>

datatype event =
    Init
  | StartCapture "MediaStream option" int
  | StopCapture
  | MuteOutputChannelForInputChannel int int
  | UnmuteOutputChannelForInputChannel int int
  | RecordInputChannel int
  | StopRecordInputChannel int
  | OnWarning string
  | OnFailure exn
  | PermissionsRemoved
  | DeviceReports DeviceError

fun step :: "event \<Rightarrow> Splutter \<Rightarrow> Splutter" where
  "step Init s = init s"
| "step (StartCapture granted negotiated) s = snd (startCapture granted negotiated s)"
| "step StopCapture s = stopCapture s"
| "step (MuteOutputChannelForInputChannel i out) s = muteOutputChannelForInputChannel i out s"
| "step (UnmuteOutputChannelForInputChannel i out) s = unmuteOutputChannelForInputChannel i out s"
| "step (RecordInputChannel i) s = recordInputChannel i s"
| "step (StopRecordInputChannel i) s = stopRecordInputChannel i s"
| "step (OnWarning m) s = onWarning m s"
| "step (OnFailure e) s = onFailure e s"
| "step PermissionsRemoved s = onPermissionsRemoved s"
| "step (DeviceReports err) s = s\<lparr>device := (device s)\<lparr>hasError := err\<rparr>\<rparr>"

fun run :: "event list \<Rightarrow> Splutter \<Rightarrow> Splutter" where
  "run [] s = s"
| "run (e # es) s = run es (step e s)"

text \<open>Whether an event runs \<^verbatim>\<open>init\<close>: a direct call, or \<^verbatim>\<open>startCapture\<close> (line 119).\<close>

fun runs_init :: "event \<Rightarrow> bool" where
  "runs_init Init = True"
| "runs_init (StartCapture granted negotiated) = True"
| "runs_init e = False"

text \<open>The calls issued between an earlier state and a later one.\<close>

definition issued :: "Splutter \<Rightarrow> Splutter \<Rightarrow> call list" where
  "issued s s' = drop (length (calls s)) (calls s')"

text \<open>The collaborators' states alone, without the list of calls.\<close>

definition collaborators :: "Splutter \<Rightarrow> Device \<times> Audio \<times> Encoder option \<times> Uploader \<times> (int \<rightharpoonup> SegmentBufferGenerator)" where
  "collaborators s = (device s, audio s, encoder s, uploader s, bufferManager s)"

text \<open>
  The calls of lines 208 to 210, and again of lines 239 to 241: \<^verbatim>\<open>stopEncoder\<close> to the
  encoder if there is one, then \<^verbatim>\<open>stopUploader\<close> to the uploader.
\<close>

definition handle_stops :: "Splutter \<Rightarrow> call list" where
  "handle_stops s =
     (case encoder s of
        None \<Rightarrow> [UploaderStopUploader]
      | Some e \<Rightarrow> [EncoderStopEncoder, UploaderStopUploader])"

text \<open>Whether a call is a warning sent to the context.\<close>

fun is_warning :: "call \<Rightarrow> bool" where
  "is_warning (ContextOnWarning m) = True"
| "is_warning c = False"

text \<open>
  The invariant of every history: a channel flagged as recording has a buffer, and a
  registry with a buffer has an encoder.
\<close>

definition coherent :: "Splutter \<Rightarrow> bool" where
  "coherent s = (a_recording (audio s) \<subseteq> dom (bufferManager s) \<and>
                 (encoder s = None \<longrightarrow> bufferManager s = Map.empty))"

subsection \<open>Concrete coordinators\<close>

text \<open>
  A host with a working device at 48 kHz whose engine records every channel; the
  coordinator after a first capture that negotiated three channels.
\<close>

definition host0 :: Host where
  "host0 = \<lparr>h_deviceError = noError, h_sampleRate = 48000, h_processorBufferSize = 4096,
            h_refuses = Map.empty\<rparr>"

definition captured_three :: Splutter where
  "captured_three = run [StartCapture (Some 0) 3] (new_Splutter host0)"

text \<open>The coordinator after a capture of two channels and the start of recording on channel 0.\<close>

definition recording_one :: Splutter where
  "recording_one = run [StartCapture (Some 0) 2, RecordInputChannel 0] (new_Splutter host0)"

text \<open>
  The same history on a host whose engine refuses to record channel 1, and a host whose
  device reports an error that is neither stopped nor not granted.
\<close>

definition host_refusing :: Host where
  "host_refusing = \<lparr>h_deviceError = noError, h_sampleRate = 48000, h_processorBufferSize = 4096,
            h_refuses = [1 \<mapsto> Error ''busy'']\<rparr>"

definition captured_refusing :: Splutter where
  "captured_refusing =
     run [StartCapture (Some 0) 2, RecordInputChannel 0] (new_Splutter host_refusing)"

definition host_failed :: Host where
  "host_failed = \<lparr>h_deviceError = otherError ''NotFoundError'', h_sampleRate = 48000,
            h_processorBufferSize = 4096, h_refuses = Map.empty\<rparr>"

section \<open>Properties\<close>

subsection \<open>Unfolding the operations\<close>

lemmas collaborator_defs =
  issue_def device_hasError_def device_tryReload_def device_requestDeviceAccess_def device_stop_def
  audio_resume_def audio_sampleRate_def audio_processorBufferSize_def audio_handleInputStream_def
  audio_stopAll_def audio_muteOutputForInput_def audio_unmuteOutputForInput_def
  audio_recordChannel_def audio_stopRecordChannel_def audio_recordingChannelCount_def
  bufferManager_bufferExists_def bufferManager_setBuffer_def bufferManager_initBuffer_def
  bufferManager_stopBuffer_def bufferManager_stopAll_def
  new_Encoder_def encoder_setChannels_def encoder_stopEncoder_def
  uploader_setChannels_def uploader_stopUploader_def
  context_onWarning_def context_onFailure_def context_onDevicePermissionRemoved_def

lemmas coordinator_defs =
  createBuffers_def init_def negotiate_def startCapture_def stopCapture_def
  muteOutputChannelForInputChannel_def unmuteOutputChannelForInputChannel_def
  stopRecordInputChannel_def recordInputChannel_try_def recordInputChannel_def
  onWarning_def onFailure_def onPermissionsRemoved_def

lemmas eval_defs = host0_def new_Splutter_def coordinator_defs collaborator_defs Let_def
  createBuffers_loop.simps issued_def

lemma issued_append: "calls s' = calls s @ xs \<Longrightarrow> issued s s' = xs"
  by (simp add: issued_def)

subsection \<open>The loop of createBuffers\<close>

lemma loop_frame:
  "device (createBuffers_loop i n s) = device s \<and> audio (createBuffers_loop i n s) = audio s \<and>
   encoder (createBuffers_loop i n s) = encoder s \<and> uploader (createBuffers_loop i n s) = uploader s"
proof (induction i n s rule: createBuffers_loop.induct)
  case (1 i channels s)
  show ?case
  proof (cases "i < channels")
    case True
    with 1 show ?thesis
      by (subst (1 2 3 4) createBuffers_loop.simps) (simp add: collaborator_defs)
  next
    case False
    then show ?thesis by (simp add: createBuffers_loop.simps)
  qed
qed

lemma loop_dom:
  "encoder s \<noteq> None \<Longrightarrow>
   dom (bufferManager (createBuffers_loop i n s)) = dom (bufferManager s) \<union> {i..<n}"
proof (induction i n s rule: createBuffers_loop.induct)
  case (1 i channels s)
  show ?case
  proof (cases "i < channels")
    case True
    have "{i..<channels} = insert i {i + 1..<channels}" using True by auto
    with 1 True show ?thesis
      by (subst createBuffers_loop.simps) (auto simp add: collaborator_defs)
  next
    case False
    then show ?thesis by (simp add: createBuffers_loop.simps)
  qed
qed

lemma loop_calls:
  "encoder s \<noteq> None \<Longrightarrow>
   calls (createBuffers_loop i n s) =
     calls s @ map BufferSetBuffer (filter (\<lambda>j. bufferManager s j = None) [i..n - 1])"
proof (induction i n s rule: createBuffers_loop.induct)
  case (1 i channels s)
  show ?case
  proof (cases "i < channels")
    case True
    have u: "[i..channels - 1] = i # [i + 1..channels - 1]" using True by (simp add: upto_rec1)
    have f: "\<And>g. filter (\<lambda>j. (if j = i then Some g else bufferManager s j) = None) [i + 1..channels - 1]
        = filter (\<lambda>j. bufferManager s j = None) [i + 1..channels - 1]"
      by (rule filter_cong) auto
    from 1 True show ?thesis
      by (subst createBuffers_loop.simps) (auto simp add: collaborator_defs u f fun_upd_def)
  next
    case False
    then show ?thesis by (simp add: createBuffers_loop.simps)
  qed
qed

lemma createBuffers_result:
  assumes "encoder s \<noteq> None"
  shows "dom (bufferManager (createBuffers C s)) = dom (bufferManager s) \<union> {0..<C}"
    and "calls (createBuffers C s) =
           calls s @ map BufferSetBuffer (filter (\<lambda>j. bufferManager s j = None) [0..C - 1])
             @ [EncoderSetChannels C, UploaderSetChannels C]"
    and "map_option e_channels (encoder (createBuffers C s)) = Some (Some C)"
    and "u_channels (uploader (createBuffers C s)) = Some C"
proof -
  let ?t = "createBuffers_loop 0 C s"
  have e: "encoder ?t \<noteq> None" using assms loop_frame [of 0 C s] by simp
  then obtain enc where enc: "encoder ?t = Some enc" by auto
  show "dom (bufferManager (createBuffers C s)) = dom (bufferManager s) \<union> {0..<C}"
    using loop_dom [OF assms, of 0 C] enc by (simp add: createBuffers_def collaborator_defs)
  show "calls (createBuffers C s) =
           calls s @ map BufferSetBuffer (filter (\<lambda>j. bufferManager s j = None) [0..C - 1])
             @ [EncoderSetChannels C, UploaderSetChannels C]"
    using loop_calls [OF assms, of 0 C] enc by (simp add: createBuffers_def collaborator_defs)
  show "map_option e_channels (encoder (createBuffers C s)) = Some (Some C)"
    using enc by (simp add: createBuffers_def collaborator_defs)
  show "u_channels (uploader (createBuffers C s)) = Some C"
    using enc by (simp add: createBuffers_def collaborator_defs)
qed

lemma createBuffers_frame:
  "device (createBuffers C s) = device s \<and> audio (createBuffers C s) = audio s \<and>
   (encoder (createBuffers C s) = None \<longleftrightarrow> encoder s = None)"
  using loop_frame [of 0 C s]
  by (cases "encoder s") (simp_all add: createBuffers_def collaborator_defs)

subsection \<open>startCapture\<close>

lemma init_encoder: "encoder (init s) \<noteq> None"
  by (simp add: init_def collaborator_defs Let_def)

lemma init_bufferManager: "bufferManager (init s) = bufferManager s"
  by (simp add: init_def collaborator_defs Let_def)

lemma negotiate_success:
  assumes "negotiate granted negotiated s = (C, s')" and "C \<noteq> 0"
  shows "\<exists>stream. granted = Some stream \<and> negotiated = C \<and>
           s' = createBuffers C (issue (AudioHandleInputStream stream)
                  (issue DeviceRequestDeviceAccess (s\<lparr>device := (device s)\<lparr>d_stopped := False\<rparr>\<rparr>)))"
  using assms
  by (cases granted)
     (auto simp add: negotiate_def device_requestDeviceAccess_def audio_handleInputStream_def
        context_onWarning_def split: if_splits)

lemma startCapture_success:
  assumes "startCapture granted negotiated s = (C, s')" and "C \<noteq> 0"
  shows "\<exists>t. encoder t \<noteq> None \<and> bufferManager t = bufferManager s \<and> s' = createBuffers C t"
proof -
  let ?i = "init s"
  have ie: "encoder ?i \<noteq> None" by (rule init_encoder)
  have ib: "bufferManager ?i = bufferManager s" by (rule init_bufferManager)
  from assms obtain u where u: "negotiate granted negotiated u = (C, s')"
    and ue: "encoder u = encoder ?i" and ub: "bufferManager u = bufferManager ?i"
    by (cases "hasError (device ?i)")
       (auto simp add: startCapture_def Let_def device_hasError_def device_tryReload_def
          issue_def context_onWarning_def)
  from negotiate_success [OF u assms(2)] obtain stream where
    s': "s' = createBuffers C (issue (AudioHandleInputStream stream)
                  (issue DeviceRequestDeviceAccess (u\<lparr>device := (device u)\<lparr>d_stopped := False\<rparr>\<rparr>)))"
    by auto
  show ?thesis
    by (rule exI [of _ "issue (AudioHandleInputStream stream)
                  (issue DeviceRequestDeviceAccess (u\<lparr>device := (device u)\<lparr>d_stopped := False\<rparr>\<rparr>))"])
       (use s' ue ub ie ib in \<open>simp add: issue_def\<close>)
qed

text \<open>
  C1, as amended. After a call of \<^verbatim>\<open>startCapture\<close> that returns a channel count \<open>C\<close> of at
  least 1, the registry holds a buffer for every channel index from 0 to \<open>C - 1\<close> and, besides
  these, exactly the buffers it held before the call; the last two calls issued are
  \<^verbatim>\<open>setChannels(C)\<close> to the encoder and \<^verbatim>\<open>setChannels(C)\<close> to the uploader, and both
  handles are configured for \<open>C\<close> channels.
\<close>

theorem startCapture_registers_channels:
  "startCapture granted negotiated s = (C, s') \<Longrightarrow> 1 \<le> C \<Longrightarrow>
     dom (bufferManager s') = dom (bufferManager s) \<union> {0..<C}
     \<and> (\<exists>earlier. calls s' = earlier @ [EncoderSetChannels C, UploaderSetChannels C])
     \<and> map_option e_channels (encoder s') = Some (Some C)
     \<and> u_channels (uploader s') = Some C"
proof -
  assume a: "startCapture granted negotiated s = (C, s')" and c: "1 \<le> C"
  from c have "C \<noteq> 0" by simp
  from startCapture_success [OF a this] obtain t where
    t: "encoder t \<noteq> None" "bufferManager t = bufferManager s" "s' = createBuffers C t" by auto
  show ?thesis
    using createBuffers_result [OF t(1), of C] t(2,3) by simp
qed

text \<open>
  The theorem at a first capture of two channels: the coordinator is new, so the registry
  holds the channels 0 and 1 and nothing else.
\<close>

theorem startCapture_registers_channels_witness:
  "fst (startCapture (Some 0) 2 (new_Splutter host0)) = 2
   \<and> dom (bufferManager (snd (startCapture (Some 0) 2 (new_Splutter host0)))) = {0..<2}
   \<and> (\<exists>earlier. calls (snd (startCapture (Some 0) 2 (new_Splutter host0))) =
         earlier @ [EncoderSetChannels 2, UploaderSetChannels 2])
   \<and> map_option e_channels (encoder (snd (startCapture (Some 0) 2 (new_Splutter host0)))) = Some (Some 2)
   \<and> u_channels (uploader (snd (startCapture (Some 0) 2 (new_Splutter host0)))) = Some 2"
proof -
  have f: "fst (startCapture (Some 0) 2 (new_Splutter host0)) = 2"
    by (simp add: host0_def new_Splutter_def coordinator_defs collaborator_defs Let_def)
  then have r: "startCapture (Some 0) 2 (new_Splutter host0) =
      (2, snd (startCapture (Some 0) 2 (new_Splutter host0)))"
    by (simp add: prod_eq_iff)
  have b: "bufferManager (new_Splutter host0) = Map.empty" by (simp add: new_Splutter_def)
  show ?thesis
    using f startCapture_registers_channels [OF r] b by simp
qed

text \<open>
  C1, as stated, fails for a capture that follows a wider one: after a capture of three
  channels, a capture that returns 1 leaves the buffers of the channels 1 and 2 in the
  registry.
\<close>

theorem startCapture_exactly_counterexample:
  "fst (startCapture (Some 0) 1 captured_three) = 1
   \<and> dom (bufferManager (snd (startCapture (Some 0) 1 captured_three))) \<noteq> {0..<1}"
proof -
  have f: "fst (startCapture (Some 0) 1 captured_three) = 1"
    by (simp add: captured_three_def host0_def new_Splutter_def coordinator_defs
          collaborator_defs Let_def createBuffers_loop.simps)
  have "bufferManager (snd (startCapture (Some 0) 1 captured_three)) 2 \<noteq> None"
    by (simp add: captured_three_def host0_def new_Splutter_def coordinator_defs
          collaborator_defs Let_def createBuffers_loop.simps)
  then have d: "2 \<in> dom (bufferManager (snd (startCapture (Some 0) 1 captured_three)))"
    by (simp add: dom_def)
  have "(2::int) \<notin> {0..<1}" by simp
  with d have "dom (bufferManager (snd (startCapture (Some 0) 1 captured_three))) \<noteq> {0..<1}"
    by metis
  with f show ?thesis by simp
qed

subsection \<open>What every call of startCapture does\<close>

lemma negotiate_shape:
  assumes e: "encoder s \<noteq> None"
  shows "\<exists>xs. calls (snd (negotiate granted negotiated s)) = calls s @ xs \<and>
        EncoderStopEncoder \<notin> set xs \<and> UploaderStopUploader \<notin> set xs \<and>
        audio (snd (negotiate granted negotiated s)) = audio s \<and>
        encoder (snd (negotiate granted negotiated s)) \<noteq> None \<and>
        u_retry (uploader (snd (negotiate granted negotiated s))) = u_retry (uploader s) \<and>
        dom (bufferManager s) \<subseteq> dom (bufferManager (snd (negotiate granted negotiated s)))"
proof (cases granted)
  case None
  with e show ?thesis by (simp add: negotiate_def collaborator_defs)
next
  case (Some stream)
  show ?thesis
  proof (cases "negotiated = 0")
    case True
    with Some e show ?thesis by (simp add: negotiate_def collaborator_defs)
  next
    case False
    let ?t = "issue (AudioHandleInputStream stream)
                (issue DeviceRequestDeviceAccess (s\<lparr>device := (device s)\<lparr>d_stopped := False\<rparr>\<rparr>))"
    have n: "snd (negotiate granted negotiated s) = createBuffers negotiated ?t"
      using Some False by (simp add: negotiate_def collaborator_defs)
    have te: "encoder ?t \<noteq> None" using e by (simp add: issue_def)
    have u: "u_retry (uploader (createBuffers negotiated ?t)) = u_retry (uploader ?t)"
      using loop_frame [of 0 negotiated ?t]
      by (cases "encoder ?t") (simp_all add: createBuffers_def collaborator_defs)
    show ?thesis
      unfolding n
      using createBuffers_result(1,2) [OF te, of negotiated] createBuffers_frame [of negotiated ?t] e u
      by (auto simp add: issue_def)
  qed
qed

lemma startCapture_shape:
  "\<exists>xs. calls (snd (startCapture granted negotiated s)) = calls s @ xs \<and>
        EncoderStopEncoder \<notin> set xs \<and> UploaderStopUploader \<notin> set xs \<and>
        a_recording (audio (snd (startCapture granted negotiated s))) = a_recording (audio s) \<and>
        encoder (snd (startCapture granted negotiated s)) \<noteq> None \<and>
        u_retry (uploader (snd (startCapture granted negotiated s))) = u_retry (uploader s) \<and>
        dom (bufferManager s) \<subseteq> dom (bufferManager (snd (startCapture granted negotiated s)))"
proof -
  let ?i = "init s"
  have i: "encoder ?i \<noteq> None" "bufferManager ?i = bufferManager s"
    "a_recording (audio ?i) = a_recording (audio s)"
    "u_retry (uploader ?i) = u_retry (uploader s)"
    "\<exists>ys. calls ?i = calls s @ ys \<and> EncoderStopEncoder \<notin> set ys \<and> UploaderStopUploader \<notin> set ys"
    by (simp_all add: init_def collaborator_defs Let_def)
  then obtain ys where ys: "calls ?i = calls s @ ys" "EncoderStopEncoder \<notin> set ys"
    "UploaderStopUploader \<notin> set ys" by auto
  let ?r = "device_tryReload ?i"
  have r: "encoder ?r \<noteq> None" "bufferManager ?r = bufferManager s"
    "a_recording (audio ?r) = a_recording (audio s)" "u_retry (uploader ?r) = u_retry (uploader s)"
    "calls ?r = calls s @ ys @ [DeviceTryReload]"
    using i(1-4) ys(1) by (simp_all add: device_tryReload_def issue_def)
  show ?thesis
  proof (cases "hasError (device ?i)")
    case noError
    then have "snd (startCapture granted negotiated s) = snd (negotiate granted negotiated ?i)"
      by (simp add: startCapture_def Let_def device_hasError_def)
    then show ?thesis using negotiate_shape [OF i(1), of granted negotiated] i(2-4) ys by auto
  next
    case stopped
    then have "snd (startCapture granted negotiated s) = snd (negotiate granted negotiated ?r)"
      by (simp add: startCapture_def Let_def device_hasError_def)
    then show ?thesis using negotiate_shape [OF r(1), of granted negotiated] r(2-5) ys by auto
  next
    case notGranted
    then have "snd (startCapture granted negotiated s) = snd (negotiate granted negotiated ?r)"
      by (simp add: startCapture_def Let_def device_hasError_def)
    then show ?thesis using negotiate_shape [OF r(1), of granted negotiated] r(2-5) ys by auto
  next
    case (otherError payload)
    then have "snd (startCapture granted negotiated s) = context_onWarning (DeviceMessage (otherError payload)) ?i"
      by (simp add: startCapture_def Let_def device_hasError_def)
    then show ?thesis using i(1-4) ys by (simp add: context_onWarning_def issue_def)
  qed
qed

subsection \<open>The invariant of histories\<close>

lemma dom_stopAll: "dom (\<lambda>i. map_option f (m i)) = dom m"
  by (auto simp add: dom_def)

lemma map_stopAll_empty: "((\<lambda>i. map_option f (m i)) = Map.empty) = (m = Map.empty)"
  by (auto simp add: fun_eq_iff)

lemma coherent_new: "coherent (new_Splutter host)"
  by (simp add: coherent_def new_Splutter_def)

lemma coherent_step: "coherent s \<Longrightarrow> coherent (step e s)"
proof (cases e)
  case (StartCapture granted negotiated)
  assume c: "coherent s"
  let ?t = "snd (startCapture granted negotiated s)"
  from startCapture_shape [of granted negotiated s]
  have "a_recording (audio ?t) = a_recording (audio s)" "encoder ?t \<noteq> None"
    "dom (bufferManager s) \<subseteq> dom (bufferManager ?t)" by auto
  with c have "coherent ?t" unfolding coherent_def by blast
  then show ?thesis using StartCapture by simp
next
  case (RecordInputChannel i)
  assume "coherent s"
  then show ?thesis using RecordInputChannel
    by (auto simp add: coherent_def coordinator_defs collaborator_defs Let_def
          split: option.splits if_splits)
qed (auto simp add: coherent_def coordinator_defs collaborator_defs Let_def dom_stopAll
       map_stopAll_empty split: option.splits if_splits)

lemma coherent_run: "coherent s \<Longrightarrow> coherent (run history s)"
  by (induction history arbitrary: s) (simp_all add: coherent_step)

subsection \<open>Stopping the last recording channel\<close>

lemma stops_only_at_zero:
  "EncoderStopEncoder \<in> set (issued s (step e s)) \<or> UploaderStopUploader \<in> set (issued s (step e s))
   \<Longrightarrow> audio_recordingChannelCount (step e s) = 0"
proof (cases e)
  case (StartCapture granted negotiated)
  assume a: "EncoderStopEncoder \<in> set (issued s (step e s)) \<or> UploaderStopUploader \<in> set (issued s (step e s))"
  from startCapture_shape [of granted negotiated s] obtain xs where
    "calls (snd (startCapture granted negotiated s)) = calls s @ xs"
    "EncoderStopEncoder \<notin> set xs" "UploaderStopUploader \<notin> set xs" by auto
  with a StartCapture show ?thesis by (simp add: issued_def)
qed (auto simp add: issued_def coordinator_defs collaborator_defs Let_def
       split: option.splits if_splits sum.splits)

lemma last_channel:
  assumes c: "coherent s" and one: "audio_recordingChannelCount s = 1" and i: "i \<in> a_recording (audio s)"
  shows "issued s (stopRecordInputChannel i s) =
           [BufferStopBuffer i, AudioStopRecordChannel i, EncoderStopEncoder, UploaderStopUploader]
         \<and> audio_recordingChannelCount (stopRecordInputChannel i s) = 0
         \<and> encoder (stopRecordInputChannel i s) = encoder s \<and> encoder s \<noteq> None
         \<and> uploader (stopRecordInputChannel i s) = uploader s"
proof -
  from one have "card (a_recording (audio s)) = 1" by (simp add: audio_recordingChannelCount_def)
  then obtain x where "a_recording (audio s) = {x}" by (auto simp add: card_1_singleton_iff)
  with i have r: "a_recording (audio s) = {i}" by simp
  with c obtain g where g: "bufferManager s i = Some g" by (auto simp add: coherent_def)
  with c obtain enc where enc: "encoder s = Some enc" by (auto simp add: coherent_def)
  show ?thesis using r g enc
    by (simp add: issued_def stopRecordInputChannel_def collaborator_defs Let_def)
qed

text \<open>
  C2. In every state a history can reach, if exactly one channel is flagged as recording and
  \<^verbatim>\<open>stopRecordInputChannel\<close> is called on that channel, the coordinator issues
  \<^verbatim>\<open>stopBuffer\<close>, \<^verbatim>\<open>stopRecordChannel\<close>, then exactly one \<^verbatim>\<open>stopEncoder\<close> and exactly one
  \<^verbatim>\<open>stopUploader\<close>; the count of recording channels is 0 afterwards, and both handles are
  still there, unchanged (stopped, not destroyed). And whatever happens next, a
  \<^verbatim>\<open>stopEncoder\<close> or a \<^verbatim>\<open>stopUploader\<close> is issued only when the count of recording channels
  is 0: no later call changes the count once the stop is issued, so the count at the end of
  the event is the count at the stop.
\<close>

theorem last_channel_stops_handles:
  "s = run history (new_Splutter host) \<Longrightarrow>
     (audio_recordingChannelCount s = 1 \<and> i \<in> a_recording (audio s) \<longrightarrow>
        issued s (stopRecordInputChannel i s) =
          [BufferStopBuffer i, AudioStopRecordChannel i, EncoderStopEncoder, UploaderStopUploader]
        \<and> audio_recordingChannelCount (stopRecordInputChannel i s) = 0
        \<and> encoder (stopRecordInputChannel i s) = encoder s \<and> encoder s \<noteq> None
        \<and> uploader (stopRecordInputChannel i s) = uploader s)
     \<and> (\<forall>e. EncoderStopEncoder \<in> set (issued s (step e s))
              \<or> UploaderStopUploader \<in> set (issued s (step e s))
            \<longrightarrow> audio_recordingChannelCount (step e s) = 0)"
  using coherent_run [OF coherent_new, of history host] last_channel [of s i]
    stops_only_at_zero [of s]
  by blast

text \<open>
  The theorem after a capture of two channels with channel 0 recording: stopping channel 0
  takes the count from 1 to 0 and issues the two stops.
\<close>

theorem last_channel_stops_handles_witness:
  "audio_recordingChannelCount recording_one = 1 \<and> 0 \<in> a_recording (audio recording_one)
   \<and> issued recording_one (stopRecordInputChannel 0 recording_one) =
       [BufferStopBuffer 0, AudioStopRecordChannel 0, EncoderStopEncoder, UploaderStopUploader]
   \<and> EncoderStopEncoder \<in> set (issued recording_one (step (StopRecordInputChannel 0) recording_one))
   \<and> audio_recordingChannelCount (step (StopRecordInputChannel 0) recording_one) = 0"
proof -
  have h: "recording_one = run [StartCapture (Some 0) 2, RecordInputChannel 0] (new_Splutter host0)"
    by (rule recording_one_def)
  have p: "audio_recordingChannelCount recording_one = 1" "0 \<in> a_recording (audio recording_one)"
    by (simp_all add: recording_one_def eval_defs)
  from last_channel_stops_handles [OF h, of 0] p
  have q: "issued recording_one (stopRecordInputChannel 0 recording_one) =
       [BufferStopBuffer 0, AudioStopRecordChannel 0, EncoderStopEncoder, UploaderStopUploader]"
    and z: "\<forall>e. EncoderStopEncoder \<in> set (issued recording_one (step e recording_one))
              \<or> UploaderStopUploader \<in> set (issued recording_one (step e recording_one))
            \<longrightarrow> audio_recordingChannelCount (step e recording_one) = 0"
    by blast+
  from q have m: "EncoderStopEncoder \<in> set (issued recording_one (step (StopRecordInputChannel 0) recording_one))"
    by simp
  with z have "audio_recordingChannelCount (step (StopRecordInputChannel 0) recording_one) = 0" by blast
  with p q m show ?thesis by simp
qed

subsection \<open>Calling stopRecordInputChannel twice\<close>

text \<open>
  C3, as amended. A second consecutive call of \<^verbatim>\<open>stopRecordInputChannel\<close> on the same
  channel leaves every collaborator in the state the first call left it in. Each call
  issues \<^verbatim>\<open>stopBuffer\<close> and \<^verbatim>\<open>stopRecordChannel\<close> and, when no channel is recording
  after it, the stops of the handles; the second call issues the calls of the first once
  more.
\<close>

theorem stopRecordInputChannel_repeated:
  "collaborators (stopRecordInputChannel i (stopRecordInputChannel i s)) =
     collaborators (stopRecordInputChannel i s)
   \<and> issued s (stopRecordInputChannel i s) =
       [BufferStopBuffer i, AudioStopRecordChannel i] @
       (if audio_recordingChannelCount (stopRecordInputChannel i s) = 0 then handle_stops s else [])
   \<and> issued (stopRecordInputChannel i s) (stopRecordInputChannel i (stopRecordInputChannel i s)) =
       issued s (stopRecordInputChannel i s)"
  by (cases "bufferManager s i"; cases "encoder s")
     (simp_all add: collaborators_def handle_stops_def issued_def stopRecordInputChannel_def
        collaborator_defs Let_def)

text \<open>
  C3, as stated, fails: with channel 0 the only channel recording, one call issues one
  \<^verbatim>\<open>stopEncoder\<close> and one \<^verbatim>\<open>stopUploader\<close>, and two calls issue two of each.
\<close>

theorem stopRecordInputChannel_repeated_counterexample:
  "issued recording_one (stopRecordInputChannel 0 recording_one) =
     [BufferStopBuffer 0, AudioStopRecordChannel 0, EncoderStopEncoder, UploaderStopUploader]
   \<and> issued recording_one (stopRecordInputChannel 0 (stopRecordInputChannel 0 recording_one)) =
     [BufferStopBuffer 0, AudioStopRecordChannel 0, EncoderStopEncoder, UploaderStopUploader,
      BufferStopBuffer 0, AudioStopRecordChannel 0, EncoderStopEncoder, UploaderStopUploader]"
  by (simp add: recording_one_def eval_defs)

subsection \<open>When the handles exist\<close>

lemma step_encoder: "(encoder (step e s) = None) = (encoder s = None \<and> \<not> runs_init e)"
proof (cases e)
  case (StartCapture granted negotiated)
  then show ?thesis using startCapture_shape [of granted negotiated s] by auto
qed (auto simp add: coordinator_defs collaborator_defs Let_def split: option.splits sum.splits)

lemma step_uploader:
  "u_retry (uploader (step e s)) = u_retry (uploader s) \<and> (\<exists>xs. calls (step e s) = calls s @ xs)"
proof (cases e)
  case (StartCapture granted negotiated)
  then show ?thesis using startCapture_shape [of granted negotiated s] by auto
qed (auto simp add: coordinator_defs collaborator_defs Let_def split: option.splits sum.splits)

lemma run_encoder:
  "(encoder (run history s) = None) = (encoder s = None \<and> \<not> (\<exists>e \<in> set history. runs_init e))"
  by (induction history arbitrary: s) (simp_all add: step_encoder)

lemma run_uploader:
  "u_retry (uploader (run history s)) = u_retry (uploader s) \<and>
   (\<exists>xs. calls (run history s) = calls s @ xs)"
proof (induction history arbitrary: s)
  case Nil
  show ?case by simp
next
  case (Cons e es)
  from step_uploader [of e s] obtain xs where
    "u_retry (uploader (step e s)) = u_retry (uploader s)" "calls (step e s) = calls s @ xs" by auto
  with Cons [of "step e s"] show ?case by auto
qed

text \<open>
  C4, as amended. After every history, the encoder exists if and only if some event of the
  history ran \<^verbatim>\<open>init\<close> (a call of \<^verbatim>\<open>init\<close> or of \<^verbatim>\<open>startCapture\<close>); the uploader was
  constructed by the coordinator's constructor and is there after every history, with its
  retry interval of 3000.
\<close>

theorem handles_exist:
  "(encoder (run history (new_Splutter host)) \<noteq> None) = (\<exists>e \<in> set history. runs_init e)
   \<and> NewUploader 3000 \<in> set (calls (run history (new_Splutter host)))
   \<and> u_retry (uploader (run history (new_Splutter host))) = 3000"
proof -
  have "encoder (new_Splutter host) = None" "u_retry (uploader (new_Splutter host)) = 3000"
    "NewUploader 3000 \<in> set (calls (new_Splutter host))"
    by (simp_all add: new_Splutter_def)
  then show ?thesis
    using run_encoder [of history "new_Splutter host"] run_uploader [of history "new_Splutter host"]
    by auto
qed

text \<open>
  C4, as stated, fails before the first \<^verbatim>\<open>init\<close>: the constructor alone has constructed
  the uploader, and there is no encoder.
\<close>

theorem handles_exist_counterexample:
  "calls (run [] (new_Splutter host0)) = [NewDevice, NewBufferManager, NewAudio, NewUploader 3000]
   \<and> encoder (run [] (new_Splutter host0)) = None"
  by (simp add: new_Splutter_def)

subsection \<open>A capture that aborts\<close>

text \<open>
  C5. \<^verbatim>\<open>startCapture\<close> returns 0, leaves the registry as it was and sends exactly one
  warning to the context (a) when the device reports an error other than none, stopped and
  not granted: the warning carries that error; (b) when the device grants no stream: "No
  stream available"; (c) when the negotiation yields zero channels: "No channels
  available".
\<close>

theorem startCapture_aborts:
  "(hasError (device s) \<notin> {noError, stopped, notGranted} \<longrightarrow>
      fst (startCapture granted negotiated s) = 0
      \<and> bufferManager (snd (startCapture granted negotiated s)) = bufferManager s
      \<and> filter is_warning (issued s (snd (startCapture granted negotiated s))) =
          [ContextOnWarning (DeviceMessage (hasError (device s)))])
   \<and> (hasError (device s) \<in> {noError, stopped, notGranted} \<and> granted = None \<longrightarrow>
      fst (startCapture granted negotiated s) = 0
      \<and> bufferManager (snd (startCapture granted negotiated s)) = bufferManager s
      \<and> filter is_warning (issued s (snd (startCapture granted negotiated s))) =
          [ContextOnWarning (Text ''No stream available'')])
   \<and> (hasError (device s) \<in> {noError, stopped, notGranted} \<and> granted \<noteq> None \<and> negotiated = 0 \<longrightarrow>
      fst (startCapture granted negotiated s) = 0
      \<and> bufferManager (snd (startCapture granted negotiated s)) = bufferManager s
      \<and> filter is_warning (issued s (snd (startCapture granted negotiated s))) =
          [ContextOnWarning (Text ''No channels available'')])"
  by (cases "hasError (device s)"; cases granted; cases "encoder s")
     (simp_all add: issued_def startCapture_def negotiate_def init_def collaborator_defs Let_def)

text \<open>
  The theorem at a host whose device has failed, and after a capture of three channels
  when no stream is granted and when zero channels are negotiated.
\<close>

theorem startCapture_aborts_witness:
  "fst (startCapture (Some 0) 2 (new_Splutter host_failed)) = 0
   \<and> bufferManager (snd (startCapture (Some 0) 2 (new_Splutter host_failed))) =
       bufferManager (new_Splutter host_failed)
   \<and> filter is_warning (issued (new_Splutter host_failed)
        (snd (startCapture (Some 0) 2 (new_Splutter host_failed)))) =
       [ContextOnWarning (DeviceMessage (otherError ''NotFoundError''))]
   \<and> fst (startCapture None 2 captured_three) = 0
   \<and> bufferManager (snd (startCapture None 2 captured_three)) = bufferManager captured_three
   \<and> filter is_warning (issued captured_three (snd (startCapture None 2 captured_three))) =
       [ContextOnWarning (Text ''No stream available'')]
   \<and> fst (startCapture (Some 0) 0 captured_three) = 0
   \<and> bufferManager (snd (startCapture (Some 0) 0 captured_three)) = bufferManager captured_three
   \<and> filter is_warning (issued captured_three (snd (startCapture (Some 0) 0 captured_three))) =
       [ContextOnWarning (Text ''No channels available'')]"
proof -
  have a: "hasError (device (new_Splutter host_failed)) = otherError ''NotFoundError''"
    by (simp add: new_Splutter_def host_failed_def)
  have b: "hasError (device captured_three) = noError"
    using loop_frame [of 0 3]
    by (simp add: captured_three_def host0_def new_Splutter_def coordinator_defs collaborator_defs Let_def)
  show ?thesis
    using startCapture_aborts [of "new_Splutter host_failed" "Some 0" 2]
      startCapture_aborts [of captured_three None 2]
      startCapture_aborts [of captured_three "Some 0" 0] a b
    by simp
qed

subsection \<open>stopCapture\<close>

text \<open>
  C6. \<^verbatim>\<open>stopCapture\<close> issues \<^verbatim>\<open>stopAll\<close> to the audio engine, \<^verbatim>\<open>stopAll\<close> to the
  registry and \<^verbatim>\<open>stop\<close> to the device, and nothing else: no \<^verbatim>\<open>stopEncoder\<close>, no
  \<^verbatim>\<open>stopUploader\<close>. Afterwards the engine is inactive, every registered buffer is stopped,
  the device is stopped, the two handles are as before; and a second consecutive call
  leaves every collaborator in the state the first call left it in: it sends the same
  three stops again, to collaborators that are stopped already.
\<close>

theorem stopCapture_teardown:
  "issued s (stopCapture s) = [AudioStopAll, BufferStopAll, DeviceStop]
   \<and> \<not> a_active (audio (stopCapture s))
   \<and> (\<forall>i g. bufferManager (stopCapture s) i = Some g \<longrightarrow> \<not> g_running g)
   \<and> d_stopped (device (stopCapture s))
   \<and> encoder (stopCapture s) = encoder s \<and> uploader (stopCapture s) = uploader s
   \<and> collaborators (stopCapture (stopCapture s)) = collaborators (stopCapture s)
   \<and> issued (stopCapture s) (stopCapture (stopCapture s)) =
       [AudioStopAll, BufferStopAll, DeviceStop]"
  by (auto simp add: issued_def collaborators_def stopCapture_def collaborator_defs
        option.map_comp comp_def)

text \<open>
  The theorem with channel 0 recording: its buffer runs before \<^verbatim>\<open>stopCapture\<close> and is
  stopped after it.
\<close>

theorem stopCapture_teardown_witness:
  "map_option g_running (bufferManager recording_one 0) = Some True
   \<and> map_option g_running (bufferManager (stopCapture recording_one) 0) = Some False
   \<and> issued recording_one (stopCapture recording_one) = [AudioStopAll, BufferStopAll, DeviceStop]
   \<and> collaborators (stopCapture (stopCapture recording_one)) = collaborators (stopCapture recording_one)"
proof -
  have a: "map_option g_running (bufferManager recording_one 0) = Some True"
    by (simp add: recording_one_def eval_defs)
  have "bufferManager (stopCapture recording_one) 0 \<noteq> None"
    by (simp add: recording_one_def eval_defs)
  then obtain g where g: "bufferManager (stopCapture recording_one) 0 = Some g" by auto
  with stopCapture_teardown [of recording_one] have "\<not> g_running g" by blast
  with g have b: "map_option g_running (bufferManager (stopCapture recording_one) 0) = Some False"
    by simp
  from a b stopCapture_teardown [of recording_one] show ?thesis by simp
qed

subsection \<open>A recording that fails\<close>

text \<open>
  C7. If the \<^verbatim>\<open>try\<close> block of \<^verbatim>\<open>recordInputChannel(i)\<close> throws \<open>e\<close>, in
  \<^verbatim>\<open>initBuffer\<close> or in \<^verbatim>\<open>recordChannel\<close>, then after the call channel \<open>i\<close> is not flagged as
  recording, its buffer (if it has one) is stopped, exactly one warning was sent to the
  context, last of all calls and carrying \<open>e\<close>, and the buffer, the recording flag and the
  routes of every other channel are as before. \<open>recordInputChannel\<close> is a total function
  on states: the thrown value ends in the warning and does not leave the method.
\<close>

theorem recordInputChannel_rollback:
  "recordInputChannel_try i s = Inl (e, t) \<Longrightarrow>
     i \<notin> a_recording (audio (recordInputChannel i s))
   \<and> (\<forall>g. bufferManager (recordInputChannel i s) i = Some g \<longrightarrow> \<not> g_running g)
   \<and> filter is_warning (issued s (recordInputChannel i s)) = [ContextOnWarning (Thrown e)]
   \<and> last (calls (recordInputChannel i s)) = ContextOnWarning (Thrown e)
   \<and> (\<forall>j. j \<noteq> i \<longrightarrow>
         bufferManager (recordInputChannel i s) j = bufferManager s j
         \<and> (j \<in> a_recording (audio (recordInputChannel i s))) = (j \<in> a_recording (audio s)))
   \<and> a_muted (audio (recordInputChannel i s)) = a_muted (audio s)"
  by (cases "bufferManager s i"; cases "a_refuses (audio s) i"; cases "encoder s")
     (auto simp add: issued_def coordinator_defs collaborator_defs Let_def)

text \<open>
  The theorem where the engine refuses channel 1 while channel 0 is recording: channel 1
  ends stopped, channel 0 goes on recording.
\<close>

theorem recordInputChannel_rollback_witness:
  "(\<exists>t. recordInputChannel_try 1 captured_refusing = Inl (Error ''busy'', t))
   \<and> 1 \<notin> a_recording (audio (recordInputChannel 1 captured_refusing))
   \<and> map_option g_running (bufferManager (recordInputChannel 1 captured_refusing) 1) = Some False
   \<and> filter is_warning (issued captured_refusing (recordInputChannel 1 captured_refusing)) =
       [ContextOnWarning (Thrown (Error ''busy''))]
   \<and> (0 \<in> a_recording (audio (recordInputChannel 1 captured_refusing)))
        = (0 \<in> a_recording (audio captured_refusing))
   \<and> 0 \<in> a_recording (audio captured_refusing)"
proof -
  obtain t where t: "recordInputChannel_try 1 captured_refusing = Inl (Error ''busy'', t)"
    by (simp add: captured_refusing_def host_refusing_def eval_defs)
  have "bufferManager (recordInputChannel 1 captured_refusing) 1 \<noteq> None"
    by (simp add: captured_refusing_def host_refusing_def eval_defs)
  then obtain g where g: "bufferManager (recordInputChannel 1 captured_refusing) 1 = Some g"
    by auto
  with recordInputChannel_rollback [OF t] have "\<not> g_running g" by blast
  with g have r: "map_option g_running (bufferManager (recordInputChannel 1 captured_refusing) 1) = Some False"
    by simp
  have z: "0 \<in> a_recording (audio captured_refusing)"
    by (simp add: captured_refusing_def host_refusing_def eval_defs)
  from recordInputChannel_rollback [OF t]
  have "(0 \<in> a_recording (audio (recordInputChannel 1 captured_refusing)))
        = (0 \<in> a_recording (audio captured_refusing))" by simp
  with t r z recordInputChannel_rollback [OF t] show ?thesis by simp
qed

subsection \<open>onFailure\<close>

text \<open>
  C8, as amended. \<^verbatim>\<open>onFailure(e)\<close> first forwards \<open>e\<close> to the context, then issues
  \<^verbatim>\<open>stopAll\<close> to the audio engine and \<^verbatim>\<open>stopAll\<close> to the registry and then, if and only
  if the engine reports no recording channel, \<^verbatim>\<open>stopEncoder\<close> to the encoder when there is
  one, and \<^verbatim>\<open>stopUploader\<close>. The device receives no call and is as before; the engine is
  inactive and every registered buffer is stopped.
\<close>

theorem onFailure_teardown:
  "issued s (onFailure e s) =
     [ContextOnFailure e, AudioStopAll, BufferStopAll] @
     (if audio_recordingChannelCount (onFailure e s) = 0 then handle_stops s else [])
   \<and> device (onFailure e s) = device s
   \<and> \<not> a_active (audio (onFailure e s))
   \<and> (\<forall>i g. bufferManager (onFailure e s) i = Some g \<longrightarrow> \<not> g_running g)"
  by (cases "encoder s")
     (auto simp add: issued_def handle_stops_def onFailure_def collaborator_defs Let_def)

text \<open>
  The theorem after a capture with no channel recording (both handles are stopped) and
  with channel 0 recording (neither is).
\<close>

theorem onFailure_teardown_witness:
  "issued captured_three (onFailure (Error ''fatal'') captured_three) =
     [ContextOnFailure (Error ''fatal''), AudioStopAll, BufferStopAll, EncoderStopEncoder,
      UploaderStopUploader]
   \<and> issued recording_one (onFailure (Error ''fatal'') recording_one) =
     [ContextOnFailure (Error ''fatal''), AudioStopAll, BufferStopAll]
   \<and> map_option g_running (bufferManager (onFailure (Error ''fatal'') recording_one) 0) = Some False"
proof -
  have a: "audio_recordingChannelCount (onFailure (Error ''fatal'') captured_three) = 0"
    "handle_stops captured_three = [EncoderStopEncoder, UploaderStopUploader]"
    by (simp_all add: captured_three_def handle_stops_def eval_defs)
  have b: "audio_recordingChannelCount (onFailure (Error ''fatal'') recording_one) = 1"
    by (simp add: recording_one_def eval_defs)
  have "bufferManager (onFailure (Error ''fatal'') recording_one) 0 \<noteq> None"
    by (simp add: recording_one_def eval_defs)
  then obtain g where g: "bufferManager (onFailure (Error ''fatal'') recording_one) 0 = Some g"
    by auto
  with onFailure_teardown [of recording_one "Error ''fatal''"] have "\<not> g_running g" by blast
  with g have c: "map_option g_running (bufferManager (onFailure (Error ''fatal'') recording_one) 0) = Some False"
    by simp
  from a b c onFailure_teardown [of captured_three "Error ''fatal''"]
    onFailure_teardown [of recording_one "Error ''fatal''"]
  show ?thesis by simp
qed

text \<open>
  C8, as stated, fails on a coordinator on which \<^verbatim>\<open>init\<close> has not run: no channel is
  recording, and \<^verbatim>\<open>onFailure\<close> stops the uploader only, there being no encoder.
\<close>

theorem onFailure_teardown_counterexample:
  "audio_recordingChannelCount (onFailure (Error ''fatal'') (new_Splutter host0)) = 0
   \<and> issued (new_Splutter host0) (onFailure (Error ''fatal'') (new_Splutter host0)) =
       [ContextOnFailure (Error ''fatal''), AudioStopAll, BufferStopAll, UploaderStopUploader]"
  by (simp add: eval_defs)

subsection \<open>The device loses its permissions\<close>

text \<open>
  C9. The handler for removed permissions issues the three calls of \<^verbatim>\<open>stopCapture\<close>
  (\<^verbatim>\<open>stopAll\<close> to the audio engine, \<^verbatim>\<open>stopAll\<close> to the registry, \<^verbatim>\<open>stop\<close> to the device)
  and only then \<^verbatim>\<open>onDevicePermissionRemoved\<close> to the context; the collaborators end in
  the state \<^verbatim>\<open>stopCapture\<close> leaves them in; the encoder and the uploader receive no call
  and are as before.
\<close>

theorem onPermissionsRemoved_teardown:
  "issued s (onPermissionsRemoved s) =
     [AudioStopAll, BufferStopAll, DeviceStop, ContextOnDevicePermissionRemoved]
   \<and> collaborators (onPermissionsRemoved s) = collaborators (stopCapture s)
   \<and> encoder (onPermissionsRemoved s) = encoder s
   \<and> uploader (onPermissionsRemoved s) = uploader s"
  by (simp add: issued_def collaborators_def onPermissionsRemoved_def stopCapture_def
        collaborator_defs)

subsection \<open>The rollback stops the shared handles\<close>

lemma card_remove_zero: "card A = 0 \<Longrightarrow> card (A - {x}) = 0"
  by (cases "finite A") simp_all

text \<open>
  C10, as amended. If the \<^verbatim>\<open>try\<close> block of \<^verbatim>\<open>recordInputChannel(i)\<close> throws \<open>e\<close> in a
  state \<open>t\<close> where the engine reports no recording channel, the rollback issues
  \<^verbatim>\<open>stopBuffer(i)\<close>, \<^verbatim>\<open>stopRecordChannel(i)\<close>, then \<^verbatim>\<open>stopEncoder\<close> to the encoder when
  there is one, then \<^verbatim>\<open>stopUploader\<close>, and last the warning.
\<close>

theorem rollback_stops_handles:
  "recordInputChannel_try i s = Inl (e, t) \<Longrightarrow> audio_recordingChannelCount t = 0 \<Longrightarrow>
     issued t (recordInputChannel i s) =
       [BufferStopBuffer i, AudioStopRecordChannel i] @ handle_stops s @ [ContextOnWarning (Thrown e)]"
  by (cases "bufferManager s i"; cases "a_refuses (audio s) i"; cases "encoder s")
     (auto simp add: issued_def handle_stops_def coordinator_defs collaborator_defs Let_def
        card_remove_zero)

text \<open>
  The theorem after a capture of three channels, for channel 7, which has no buffer: the
  failure stops the encoder and the uploader.
\<close>

theorem rollback_stops_handles_witness:
  "(\<exists>t. recordInputChannel_try 7 captured_three = Inl (Error ''no buffer for channel'', t)
        \<and> audio_recordingChannelCount t = 0
        \<and> issued t (recordInputChannel 7 captured_three) =
            [BufferStopBuffer 7, AudioStopRecordChannel 7, EncoderStopEncoder,
             UploaderStopUploader, ContextOnWarning (Thrown (Error ''no buffer for channel''))])"
proof -
  obtain t where t: "recordInputChannel_try 7 captured_three = Inl (Error ''no buffer for channel'', t)"
    and c: "audio_recordingChannelCount t = 0"
    by (simp add: captured_three_def eval_defs)
  have h: "handle_stops captured_three = [EncoderStopEncoder, UploaderStopUploader]"
    by (simp add: captured_three_def handle_stops_def eval_defs)
  from rollback_stops_handles [OF t c] h t c show ?thesis by simp
qed

text \<open>
  C10, as stated, fails on a coordinator on which \<^verbatim>\<open>init\<close> has not run: recording
  channel 0 fails for want of a buffer, no channel is recording, and the rollback issues
  \<^verbatim>\<open>stopUploader\<close> but no \<^verbatim>\<open>stopEncoder\<close>.
\<close>

theorem rollback_stops_handles_counterexample:
  "audio_recordingChannelCount (new_Splutter host0) = 0
   \<and> issued (new_Splutter host0) (recordInputChannel 0 (new_Splutter host0)) =
       [BufferInitBuffer 0, BufferStopBuffer 0, AudioStopRecordChannel 0, UploaderStopUploader,
        ContextOnWarning (Thrown (Error ''no buffer for channel''))]"
  by (simp add: eval_defs)

end
